theory Spec2Isabelle
  imports Complex_Main
begin

section \<open>Exceptions, results and the observable trace\<close>

text \<open>
  The two entry points of the repository, \<^verbatim>\<open>train_deep_q.py\<close> (the training loop) and
  \<^verbatim>\<open>main.py\<close> (the play loop), are orchestration code over four collaborators:
  \<^verbatim>\<open>Track\<close>, \<^verbatim>\<open>Car\<close>, \<^verbatim>\<open>LineEvaluator\<close> and \<^verbatim>\<open>DeepQDriver\<close>. The collaborators'
  classes are not part of the sources, so their methods are parameters of the model (the
  record \<open>ops\<close> below). The objects alias each other (the evaluator keeps a reference to the
  car and the track, the driver is handed both on every call), so all of them, together
  with the files they read and write, form one abstract store \<open>'w\<close>: a method takes the
  store and returns the store it leaves behind together with its result or the exception
  it raised. A method that raises may have changed the store before doing so.

  An exception is an instance of Python's \<^verbatim>\<open>Exception\<close> class, which is what every
  \<^verbatim>\<open>except Exception\<close> clause of the sources catches.
\<close>

datatype exc = PyException string

type_synonym 'r result = "exc + 'r"

datatype level = DEBUG | INFO | WARNING | ERROR

text \<open>The texts printed by \<^verbatim>\<open>train_deep_q.py\<close> and logged by \<^verbatim>\<open>main.py\<close>, with the values
  they are formatted with.\<close>

datatype message =
    Training_finished real
  | Training_no_loss
  | Training_error exc
  | Game_ended int
  | Game_starting int real
  | Training_already_running
  | Waiting_for_training
  | Model_saved
  | Error_saving exc
  | Get_input_data_failed exc
  | Calculate_command_failed exc
  | Move_failed exc
  | Evaluate_error exc
  | Episode_done
  | Reinit_failed exc
  | Reset_score_failed exc
  | Unhandled_error exc
  | Weights_loaded string
  | Weights_load_failed string exc
  | Continuing_without_weights
  | Model_file_not_found string

text \<open>
  Every call of a collaborator is recorded, when it comes back, with its arguments and its
  outcome; so are thread operations and printed or logged lines. \<open>'s\<close> is the type of
  state vectors and \<open>'a\<close> the type of discrete actions.
\<close>

datatype ('s, 'a) event =
    Get_input_data "'s result"
  | Calculate_command bool "(real \<times> real \<times> 'a) result"
  | Move real real real "unit result"
  | Evaluate real "bool result"
  | Get_score "real result"
  | Remember 's 'a real 's bool "unit result"
  | Dump_memory_to_cache "unit result"
  | Decay_epsilon "unit result"
  | Set_last_explore_none
  | Init_position "unit result"
  | Reset_score "unit result"
  | Replay_memory int int "real option result"
  | Save_model_weights string "unit result"
  | Load_model_weights string "unit result"
  | Path_exists string bool
  | Thread_start nat int int
  | Thread_join nat real
  | Print message
  | Log level message

section \<open>The collaborators\<close>

text \<open>
  \<open>evaluate\<close> returns the truth value of what \<^verbatim>\<open>evaluator.evaluate(dt)\<close> returns.
  \<open>init_position\<close> is \<^verbatim>\<open>car.init_position(track.start_point, d)\<close> with the direction \<open>d\<close>
  the calling file passes. \<open>set_last_explore_none\<close> is the assignment
  \<^verbatim>\<open>driver.last_explore = None\<close> and \<open>epsilon\<close> the read of \<^verbatim>\<open>driver.epsilon\<close>.
  \<open>path_exists\<close> is \<^verbatim>\<open>os.path.exists\<close>.
\<close>

record ('w, 's, 'a) ops =
  get_input_data :: "'w \<Rightarrow> 'w \<times> 's result"
  calculate_command :: "bool \<Rightarrow> 'w \<Rightarrow> 'w \<times> (real \<times> real \<times> 'a) result"
  move :: "real \<Rightarrow> real \<Rightarrow> real \<Rightarrow> 'w \<Rightarrow> 'w \<times> unit result"
  evaluate :: "real \<Rightarrow> 'w \<Rightarrow> 'w \<times> bool result"
  get_score :: "'w \<Rightarrow> 'w \<times> real result"
  remember :: "'s \<Rightarrow> 'a \<Rightarrow> real \<Rightarrow> 's \<Rightarrow> bool \<Rightarrow> 'w \<Rightarrow> 'w \<times> unit result"
  dump_memory_to_cache :: "'w \<Rightarrow> 'w \<times> unit result"
  decay_epsilon :: "'w \<Rightarrow> 'w \<times> unit result"
  set_last_explore_none :: "'w \<Rightarrow> 'w"
  epsilon :: "'w \<Rightarrow> real"
  init_position :: "'w \<Rightarrow> 'w \<times> unit result"
  reset_score :: "'w \<Rightarrow> 'w \<times> unit result"
  replay_memory :: "int \<Rightarrow> int \<Rightarrow> 'w \<Rightarrow> 'w \<times> real option result"
  save_model_weights :: "string \<Rightarrow> 'w \<Rightarrow> 'w \<times> unit result"
  load_model_weights :: "string \<Rightarrow> 'w \<Rightarrow> 'w \<times> unit result"
  path_exists :: "string \<Rightarrow> 'w \<Rightarrow> bool"

section \<open>Program state\<close>

text \<open>
  Both programs own the store and produce a trace. The training program adds its module
  globals. A \<^verbatim>\<open>threading.Thread\<close> object is a record in the list \<open>threads\<close>, in order of
  creation; \<open>training_thread\<close> is \<^verbatim>\<open>None\<close> or a reference (an index) to one of them.
\<close>

record thread =
  alive :: bool
  batch_size :: int
  epochs :: int

record ('w, 's, 'a) program =
  world :: 'w
  trace :: "('s, 'a) event list"

record ('w, 's, 'a) globals = "('w, 's, 'a) program" +
  training_thread :: "nat option"
  threads :: "thread list"
  last_score :: real
  time_elapsed :: real
  game_count :: int
  skip_frame :: bool
  losses :: "real list"
  scores :: "real list"

section \<open>Statements that may raise\<close>

text \<open>
  A statement maps the program state to the state it leaves and either a value or the
  exception that ended it. Assignments made before an exception stay made.
\<close>

type_synonym ('g, 'r) prog = "'g \<Rightarrow> 'g \<times> 'r result"

definition ret :: "'r \<Rightarrow> ('g, 'r) prog" where
  "ret x = (\<lambda>g. (g, Inr x))"

definition bnd :: "('g, 'r) prog \<Rightarrow> ('r \<Rightarrow> ('g, 'q) prog) \<Rightarrow> ('g, 'q) prog" where
  "bnd m k = (\<lambda>g. case m g of (g', Inl e) \<Rightarrow> (g', Inl e) | (g', Inr x) \<Rightarrow> k x g')"

definition try_except :: "('g, 'r) prog \<Rightarrow> (exc \<Rightarrow> ('g, 'r) prog) \<Rightarrow> ('g, 'r) prog" where
  "try_except m h = (\<lambda>g. case m g of (g', Inl e) \<Rightarrow> h e g' | (g', Inr x) \<Rightarrow> (g', Inr x))"

definition modify :: "('g \<Rightarrow> 'g) \<Rightarrow> ('g, unit) prog" where
  "modify f = (\<lambda>g. (f g, Inr ()))"

definition gets :: "('g \<Rightarrow> 'v) \<Rightarrow> ('g, 'v) prog" where
  "gets f = (\<lambda>g. (g, Inr (f g)))"

definition emit :: "('s, 'a) event \<Rightarrow> (('w, 's, 'a, 'z) program_scheme, unit) prog" where
  "emit ev = modify (\<lambda>g. g\<lparr>trace := trace g @ [ev]\<rparr>)"

definition call ::
  "('r result \<Rightarrow> ('s, 'a) event) \<Rightarrow> ('w \<Rightarrow> 'w \<times> 'r result) \<Rightarrow>
   (('w, 's, 'a, 'z) program_scheme, 'r) prog" where
  "call ev f = (\<lambda>g. case f (world g) of
       (w', r) \<Rightarrow> (g\<lparr>world := w', trace := trace g @ [ev r]\<rparr>, r))"

section \<open>The training loop: \<^verbatim>\<open>train_deep_q.py\<close>\<close>

subsection \<open>\<^verbatim>\<open>_background_replay\<close>\<close>

definition background_replay ::
  "('w, 's, 'a) ops \<Rightarrow> int \<Rightarrow> int \<Rightarrow> (('w, 's, 'a) globals, unit) prog" where
  "background_replay ops batch_size' epochs' =
     try_except
       (bnd (call (Replay_memory batch_size' epochs') (replay_memory ops batch_size' epochs'))
         (\<lambda>loss. case loss of
             Some l \<Rightarrow>
               bnd (modify (\<lambda>g. g\<lparr>losses := losses g @ [l]\<rparr>))
                 (\<lambda>_. emit (Print (Training_finished l)))
           | None \<Rightarrow> emit (Print Training_no_loss)))
       (\<lambda>e. emit (Print (Training_error e)))"

subsection \<open>Threads\<close>

definition is_alive :: "('w, 's, 'a) globals \<Rightarrow> nat \<Rightarrow> bool" where
  "is_alive g i = (i < length (threads g) \<and> alive (threads g ! i))"

text \<open>\<^verbatim>\<open>training_thread = threading.Thread(target=_background_replay, args=(1 << 10, 10),
  daemon=True); training_thread.start()\<close>\<close>

definition start_training_thread :: "(('w, 's, 'a) globals, unit) prog" where
  "start_training_thread =
     bnd (gets (\<lambda>g. length (threads g))) (\<lambda>i.
     bnd (ret \<lparr>alive = True, batch_size = push_bit 10 1, epochs = 10\<rparr>) (\<lambda>t.
     bnd (modify (\<lambda>g. g\<lparr>threads := threads g @ [t], training_thread := Some i\<rparr>)) (\<lambda>_.
     emit (Thread_start i (batch_size t) (epochs t)))))"

subsection \<open>\<^verbatim>\<open>game_loop\<close>\<close>

text \<open>The body of \<^verbatim>\<open>if (done or time_elapsed >= 300):\<close>.\<close>

definition episode_end :: "('w, 's, 'a) ops \<Rightarrow> (('w, 's, 'a) globals, unit) prog" where
  "episode_end ops =
     bnd (call Dump_memory_to_cache (dump_memory_to_cache ops)) (\<lambda>_.
     bnd (gets game_count) (\<lambda>n.
     bnd (emit (Print (Game_ended n))) (\<lambda>_.
     bnd (gets training_thread) (\<lambda>t.
     bnd (case t of
            None \<Rightarrow> start_training_thread
          | Some i \<Rightarrow>
              bnd (gets (\<lambda>g. is_alive g i)) (\<lambda>running.
              if \<not> running then start_training_thread
              else emit (Print Training_already_running))) (\<lambda>_.
     bnd (call Get_score (get_score ops)) (\<lambda>score.
     bnd (modify (\<lambda>g. g\<lparr>scores := scores g @ [score + 100]\<rparr>)) (\<lambda>_.
     bnd (call Decay_epsilon (decay_epsilon ops)) (\<lambda>_.
     bnd (modify (\<lambda>g. g\<lparr>world := set_last_explore_none ops (world g)\<rparr>)) (\<lambda>_.
     bnd (emit Set_last_explore_none) (\<lambda>_.
     bnd (modify (\<lambda>g. g\<lparr>game_count := game_count g + 1\<rparr>)) (\<lambda>_.
     bnd (gets (\<lambda>g. (game_count g, epsilon ops (world g)))) (\<lambda>(n', eps).
     bnd (emit (Print (Game_starting n' eps))) (\<lambda>_.
     bnd (modify (\<lambda>g. g\<lparr>last_score := 0\<rparr>)) (\<lambda>_.
     bnd (modify (\<lambda>g. g\<lparr>time_elapsed := 0\<rparr>)) (\<lambda>_.
     bnd (call Init_position (init_position ops)) (\<lambda>_.
     bnd (call Reset_score (reset_score ops)) (\<lambda>_.
     modify (\<lambda>g. g\<lparr>skip_frame := True\<rparr>))))))))))))))))))"

text \<open>The statements of a tick that is not skipped, up to \<^verbatim>\<open>driver.remember(...)\<close>; the
  value is \<^verbatim>\<open>done\<close>.\<close>

definition tick_body ::
  "('w, 's, 'a) ops \<Rightarrow> real \<Rightarrow> (('w, 's, 'a) globals, bool) prog" where
  "tick_body ops dt =
     bnd (modify (\<lambda>g. g\<lparr>time_elapsed := time_elapsed g + dt\<rparr>)) (\<lambda>_.
     bnd (call Get_input_data (get_input_data ops)) (\<lambda>state.
     bnd (call (Calculate_command True) (calculate_command ops True))
       (\<lambda>(turn_rate, acceleration_rate, action).
     bnd (call (Move turn_rate acceleration_rate dt) (move ops turn_rate acceleration_rate dt)) (\<lambda>_.
     bnd (call (Evaluate dt) (evaluate ops dt)) (\<lambda>still_alive.
     bnd (ret (\<not> still_alive)) (\<lambda>done.
     bnd (call Get_score (get_score ops)) (\<lambda>score.
     bnd (gets last_score) (\<lambda>previous.
     bnd (ret (score - previous)) (\<lambda>reward.
     bnd (call Get_score (get_score ops)) (\<lambda>score'.
     bnd (modify (\<lambda>g. g\<lparr>last_score := score'\<rparr>)) (\<lambda>_.
     bnd (call Get_input_data (get_input_data ops)) (\<lambda>new_state.
     bnd (call (Remember state action reward new_state done)
               (remember ops state action reward new_state done)) (\<lambda>_.
     ret done)))))))))))))"

definition game_loop ::
  "('w, 's, 'a) ops \<Rightarrow> real \<Rightarrow> (('w, 's, 'a) globals, unit) prog" where
  "game_loop ops dt =
     bnd (gets skip_frame) (\<lambda>skip.
     if skip then modify (\<lambda>g. g\<lparr>skip_frame := False\<rparr>)
     else
       bnd (tick_body ops dt) (\<lambda>done.
       bnd (gets time_elapsed) (\<lambda>elapsed.
       if done \<or> elapsed \<ge> 300 then episode_end ops else ret ())))"

subsection \<open>\<^verbatim>\<open>on_close\<close>\<close>

text \<open>
  \<^verbatim>\<open>training_thread.join(timeout=10)\<close> blocks the caller until the thread has ended or ten
  seconds have passed, whichever comes first. Which of the two happens is decided by the
  running pass, not by \<^verbatim>\<open>on_close\<close>, so it is the argument \<open>ends_in_time\<close>: when the pass
  ends in time, its statements have run and the thread is dead when \<open>join\<close> comes back.
\<close>

definition finish_thread ::
  "('w, 's, 'a) ops \<Rightarrow> nat \<Rightarrow> (('w, 's, 'a) globals, unit) prog" where
  "finish_thread ops i =
     bnd (gets (\<lambda>g. is_alive g i)) (\<lambda>running.
     if running
     then bnd (gets (\<lambda>g. threads g ! i)) (\<lambda>t.
          bnd (background_replay ops (batch_size t) (epochs t)) (\<lambda>_.
          modify (\<lambda>g. g\<lparr>threads := (threads g)[i := (threads g ! i)\<lparr>alive := False\<rparr>]\<rparr>)))
     else ret ())"

definition join_thread ::
  "('w, 's, 'a) ops \<Rightarrow> bool \<Rightarrow> nat \<Rightarrow> real \<Rightarrow> (('w, 's, 'a) globals, unit) prog" where
  "join_thread ops ends_in_time i timeout =
     bnd (if ends_in_time then finish_thread ops i else ret ())
       (\<lambda>_. emit (Thread_join i timeout))"

definition on_close ::
  "('w, 's, 'a) ops \<Rightarrow> bool \<Rightarrow> (('w, 's, 'a) globals, bool) prog" where
  "on_close ops ends_in_time =
     bnd (try_except
            (bnd (gets training_thread) (\<lambda>t.
             bnd (case t of
                    None \<Rightarrow> ret ()
                  | Some i \<Rightarrow>
                      bnd (gets (\<lambda>g. is_alive g i)) (\<lambda>running.
                      if running
                      then bnd (emit (Print Waiting_for_training))
                             (\<lambda>_. join_thread ops ends_in_time i 10)
                      else ret ())) (\<lambda>_.
             bnd (call (Save_model_weights ''model.h5'') (save_model_weights ops ''model.h5'')) (\<lambda>_.
             emit (Print Model_saved)))))
            (\<lambda>e. emit (Print (Error_saving e))))
       (\<lambda>_. ret True)"

subsection \<open>The scheduler\<close>

text \<open>
  The window system calls \<^verbatim>\<open>game_loop\<close> thirty times a second, on one thread. A training
  pass runs on its own thread and ends at a moment of its own choosing between two ticks or
  during \<^verbatim>\<open>join\<close>. A schedule lists what happens, in order: a tick with its \<^verbatim>\<open>dt\<close>, or the
  end of the pass run by a thread. The statements of a pass take effect where it ends.
  An exception leaving \<^verbatim>\<open>game_loop\<close> ends the run.
\<close>

datatype sched = Tick real | Pass_ends nat

definition step ::
  "('w, 's, 'a) ops \<Rightarrow> sched \<Rightarrow> (('w, 's, 'a) globals, unit) prog" where
  "step ops ev = (case ev of Tick dt \<Rightarrow> game_loop ops dt | Pass_ends i \<Rightarrow> finish_thread ops i)"

fun run :: "('w, 's, 'a) ops \<Rightarrow> sched list \<Rightarrow> (('w, 's, 'a) globals, unit) prog" where
  "run ops [] = ret ()"
| "run ops (ev # evs) = bnd (step ops ev) (\<lambda>_. run ops evs)"

text \<open>The module globals when \<^verbatim>\<open>pyglet.app.run()\<close> is entered, over the store \<open>w\<close> that the
  module-level statements have built.\<close>

definition init_globals :: "'w \<Rightarrow> ('w, 's, 'a) globals" where
  "init_globals w =
     \<lparr>world = w, trace = [], training_thread = None, threads = [], last_score = 0,
      time_elapsed = 0, game_count = 0, skip_frame = False, losses = [], scores = []\<rparr>"

section \<open>The play loop: \<^verbatim>\<open>main.py\<close>\<close>

text \<open>
  Line 6, \<^verbatim>\<open>logging.basicConfig(level=logging.INFO, ...)\<close>: the logger handles a record
  only when its level is at least \<^verbatim>\<open>INFO\<close>. A call of \<^verbatim>\<open>log.debug\<close> therefore leaves no line;
  \<^verbatim>\<open>log.info\<close>, \<^verbatim>\<open>log.warning\<close> and \<^verbatim>\<open>log.exception\<close> (which logs at level \<^verbatim>\<open>ERROR\<close>) do.
\<close>

fun levelno :: "level \<Rightarrow> nat" where
  "levelno DEBUG = 10"
| "levelno INFO = 20"
| "levelno WARNING = 30"
| "levelno ERROR = 40"

definition LOGGING_LEVEL :: level where
  "LOGGING_LEVEL = INFO"

definition log_record ::
  "level \<Rightarrow> message \<Rightarrow> (('w, 's, 'a, 'z) program_scheme, unit) prog" where
  "log_record lvl msg =
     (if levelno LOGGING_LEVEL \<le> levelno lvl then emit (Log lvl msg) else ret ())"



text \<open>The body of \<^verbatim>\<open>if done:\<close>.\<close>

definition reset_after_done :: "('w, 's, 'a) ops \<Rightarrow> (('w, 's, 'a) program, unit) prog" where
  "reset_after_done ops =
     bnd (log_record INFO Episode_done) (\<lambda>_.
     bnd (try_except (call Init_position (init_position ops))
            (\<lambda>e. log_record ERROR (Reinit_failed e))) (\<lambda>_.
     try_except (call Reset_score (reset_score ops))
       (\<lambda>e. log_record ERROR (Reset_score_failed e))))"

text \<open>
  The body of the outer \<^verbatim>\<open>try\<close>. The handler of \<^verbatim>\<open>car.move\<close> ends with \<^verbatim>\<open>return\<close>: the
  guarded statement yields whether the tick goes on, and the rest of the body runs only
  when it does.
\<close>

definition main_tick_body ::
  "('w, 's, 'a) ops \<Rightarrow> real \<Rightarrow> (('w, 's, 'a) program, unit) prog" where
  "main_tick_body ops dt =
     bnd (try_except
            (bnd (call Get_input_data (get_input_data ops)) (\<lambda>s. ret (Some s)))
            (\<lambda>e. bnd (log_record DEBUG (Get_input_data_failed e)) (\<lambda>_. ret None))) (\<lambda>state.
     bnd (try_except
            (bnd (call (Calculate_command False) (calculate_command ops False))
               (\<lambda>(t, a, action). ret (t, a, Some action)))
            (\<lambda>e. bnd (log_record WARNING (Calculate_command_failed e))
               (\<lambda>_. ret (0, 0, None)))) (\<lambda>(turn_rate, acceleration_rate, action).
     bnd (try_except
            (bnd (call (Move turn_rate acceleration_rate dt)
                       (move ops turn_rate acceleration_rate dt)) (\<lambda>_. ret True))
            (\<lambda>e. bnd (log_record ERROR (Move_failed e)) (\<lambda>_.
                  bnd (call Init_position (init_position ops)) (\<lambda>_. ret False)))) (\<lambda>goes_on.
     if \<not> goes_on then ret ()
     else
     bnd (try_except
            (bnd (call (Evaluate dt) (evaluate ops dt)) (\<lambda>still_alive. ret (\<not> still_alive)))
            (\<lambda>e. bnd (log_record ERROR (Evaluate_error e)) (\<lambda>_. ret True))) (\<lambda>done.
     if done then reset_after_done ops else ret ()))))"

definition main_game_loop ::
  "('w, 's, 'a) ops \<Rightarrow> real \<Rightarrow> (('w, 's, 'a) program, unit) prog" where
  "main_game_loop ops dt =
     try_except (main_tick_body ops dt)
       (\<lambda>e. bnd (log_record ERROR (Unhandled_error e)) (\<lambda>_.
             try_except
               (bnd (call Init_position (init_position ops))
                  (\<lambda>_. call Reset_score (reset_score ops)))
               (\<lambda>_. ret ())))"

section \<open>Reading a trace\<close>

text \<open>The events a statement has added when it takes the state \<open>g\<close> to \<open>g'\<close>.\<close>

definition new_events ::
  "('w, 's, 'a, 'y) program_scheme \<Rightarrow> ('w, 's, 'a, 'z) program_scheme \<Rightarrow> ('s, 'a) event list" where
  "new_events g g' = drop (length (trace g)) (trace g')"

fun is_dump :: "('s, 'a) event \<Rightarrow> bool" where
  "is_dump (Dump_memory_to_cache _) = True"
| "is_dump _ = False"

fun is_dump_done :: "('s, 'a) event \<Rightarrow> bool" where
  "is_dump_done (Dump_memory_to_cache (Inr _)) = True"
| "is_dump_done _ = False"

fun is_thread_start :: "('s, 'a) event \<Rightarrow> bool" where
  "is_thread_start (Thread_start _ _ _) = True"
| "is_thread_start _ = False"

fun is_evaluate_falsy :: "('s, 'a) event \<Rightarrow> bool" where
  "is_evaluate_falsy (Evaluate _ (Inr still_alive)) = (\<not> still_alive)"
| "is_evaluate_falsy _ = False"

text \<open>The method an event is a call of (or what else it records), and the calls of a tick
  that is not skipped, up to \<^verbatim>\<open>driver.remember\<close>.\<close>

fun call_name :: "('s, 'a) event \<Rightarrow> string" where
  "call_name (Get_input_data _) = ''get_input_data''"
| "call_name (Calculate_command _ _) = ''calculate_command''"
| "call_name (Move _ _ _ _) = ''move''"
| "call_name (Evaluate _ _) = ''evaluate''"
| "call_name (Get_score _) = ''get_score''"
| "call_name (Remember _ _ _ _ _ _) = ''remember''"
| "call_name (Dump_memory_to_cache _) = ''dump_memory_to_cache''"
| "call_name (Decay_epsilon _) = ''decay_epsilon''"
| "call_name Set_last_explore_none = ''last_explore''"
| "call_name (Init_position _) = ''init_position''"
| "call_name (Reset_score _) = ''reset_score''"
| "call_name (Replay_memory _ _ _) = ''replay_memory''"
| "call_name (Save_model_weights _ _) = ''save_model_weights''"
| "call_name (Load_model_weights _ _) = ''load_model_weights''"
| "call_name (Path_exists _ _) = ''exists''"
| "call_name (Thread_start _ _ _) = ''start''"
| "call_name (Thread_join _ _) = ''join''"
| "call_name (Print _) = ''print''"
| "call_name (Log _ _) = ''log''"

definition tick_calls :: "string list" where
  "tick_calls =
     [''get_input_data'', ''calculate_command'', ''move'', ''evaluate'', ''get_score'',
      ''get_score'', ''get_input_data'', ''remember'']"

text \<open>\<open>preceded_by p q es\<close>: no event satisfying \<open>q\<close> comes before the first event
  satisfying \<open>p\<close>, so every \<open>q\<close> has a \<open>p\<close> before it.\<close>

fun preceded_by :: "('e \<Rightarrow> bool) \<Rightarrow> ('e \<Rightarrow> bool) \<Rightarrow> 'e list \<Rightarrow> bool" where
  "preceded_by p q [] = True"
| "preceded_by p q (e # es) =
     (if p e then True else if q e then False else preceded_by p q es)"

fun is_save :: "('s, 'a) event \<Rightarrow> bool" where
  "is_save (Save_model_weights _ _) = True"
| "is_save _ = False"

text \<open>Every thread that is alive is the one \<open>training_thread\<close> refers to.\<close>

definition single_alive :: "thread list \<Rightarrow> nat option \<Rightarrow> bool" where
  "single_alive ts t = (\<forall>i < length ts. alive (ts ! i) \<longrightarrow> t = Some i)"

text \<open>The rewards of the transitions handed to \<^verbatim>\<open>driver.remember\<close>, in order.\<close>

fun rewards :: "('s, 'a) event list \<Rightarrow> real list" where
  "rewards [] = []"
| "rewards (Remember _ _ r _ _ _ # es) = r # rewards es"
| "rewards (_ # es) = rewards es"

section \<open>Reasoning about statements\<close>

text \<open>\<open>wp m Q E g\<close>: run from \<open>g\<close>, the statement \<open>m\<close> either returns a value \<open>x\<close> in a state
  \<open>g'\<close> with \<open>Q x g'\<close>, or raises \<open>e\<close> in a state \<open>g'\<close> with \<open>E e g'\<close>.\<close>

definition wp ::
  "('g, 'r) prog \<Rightarrow> ('r \<Rightarrow> 'g \<Rightarrow> bool) \<Rightarrow> (exc \<Rightarrow> 'g \<Rightarrow> bool) \<Rightarrow> 'g \<Rightarrow> bool" where
  "wp m Q E g = (case m g of (g', Inr x) \<Rightarrow> Q x g' | (g', Inl e) \<Rightarrow> E e g')"

section \<open>A small instance\<close>

text \<open>
  Collaborators over a store that is one number, the evaluator's score: every evaluation
  adds one to it and reports the car alive while it is below three; nothing raises; there
  is no model file and a training pass finds too little data.
\<close>

definition toy_ops :: "(nat, nat, nat) ops" where
  "toy_ops =
     \<lparr>get_input_data = (\<lambda>w. (w, Inr w)),
      calculate_command = (\<lambda>training w. (w, Inr (0, 1, 0))),
      move = (\<lambda>turn_rate acceleration_rate dt w. (w, Inr ())),
      evaluate = (\<lambda>dt w. (Suc w, Inr (Suc w < 3))),
      get_score = (\<lambda>w. (w, Inr (real w))),
      remember = (\<lambda>state action reward new_state done w. (w, Inr ())),
      dump_memory_to_cache = (\<lambda>w. (w, Inr ())),
      decay_epsilon = (\<lambda>w. (w, Inr ())),
      set_last_explore_none = (\<lambda>w. w),
      epsilon = (\<lambda>w. 4 / 5),
      init_position = (\<lambda>w. (w, Inr ())),
      reset_score = (\<lambda>w. (0, Inr ())),
      replay_memory = (\<lambda>batch_size epochs w. (w, Inr None)),
      save_model_weights = (\<lambda>path w. (w, Inr ())),
      load_model_weights = (\<lambda>path w. (w, Inr ())),
      path_exists = (\<lambda>path w. False)\<rparr>"

text \<open>The training program started with the evaluator one evaluation away from ending the
  episode, after its first tick: the episode has ended and a training thread is running.\<close>

definition toy_after_episode :: "(nat, nat, nat) globals" where
  "toy_after_episode = fst (game_loop toy_ops (1 / 30) (init_globals 2))"

text \<open>The same program five ticks on (the episode's end, the skipped tick and two ticks of
  the second episode and a third that is about to end it), the first training thread
  still running.\<close>

definition toy_second_episode :: "(nat, nat, nat) globals" where
  "toy_second_episode =
     fst (run toy_ops [Tick (1 / 30), Tick (1 / 30), Tick (1 / 30), Tick (1 / 30)]
            (init_globals 2))"

text \<open>The training program started with the score at zero: two ticks into the first
  episode, and after the third tick, which ends it.\<close>

definition toy_mid_episode :: "(nat, nat, nat) globals" where
  "toy_mid_episode = fst (run toy_ops (map Tick [1 / 30, 1 / 30]) (init_globals 0))"

definition toy_end_of_episode :: "(nat, nat, nat) globals" where
  "toy_end_of_episode = fst (game_loop toy_ops (1 / 30) toy_mid_episode)"

text \<open>The same collaborators with an evaluator that always reports the car alive, and
  the training program 8999 ticks of a thirtieth of a second into its first episode.\<close>

definition calm_ops :: "(nat, nat, nat) ops" where
  "calm_ops = toy_ops\<lparr>evaluate := \<lambda>dt w. (Suc w, Inr True)\<rparr>"

definition long_episode :: "(nat, nat, nat) globals" where
  "long_episode = fst (run calm_ops (replicate 8999 (Tick (1 / 30))) (init_globals 0))"

section \<open>Rules for statements\<close>

lemma wp_ret [simp]: "wp (ret x) Q E g = Q x g"
  by (simp add: wp_def ret_def)

lemma wp_gets [simp]: "wp (gets f) Q E g = Q (f g) g"
  by (simp add: wp_def gets_def)

lemma wp_modify [simp]: "wp (modify f) Q E g = Q () (f g)"
  by (simp add: wp_def modify_def)

lemma wp_emit [simp]: "wp (emit ev) Q E g = Q () (g\<lparr>trace := trace g @ [ev]\<rparr>)"
  by (simp add: emit_def)

lemma wp_log_record [simp]:
  "wp (log_record DEBUG msg) Q E g = Q () g"
  "wp (log_record INFO msg) Q E g = Q () (g\<lparr>trace := trace g @ [Log INFO msg]\<rparr>)"
  "wp (log_record WARNING msg) Q E g = Q () (g\<lparr>trace := trace g @ [Log WARNING msg]\<rparr>)"
  "wp (log_record ERROR msg) Q E g = Q () (g\<lparr>trace := trace g @ [Log ERROR msg]\<rparr>)"
  by (simp_all add: log_record_def LOGGING_LEVEL_def)

lemma wp_bnd [simp]: "wp (bnd m k) Q E g = wp m (\<lambda>x. wp (k x) Q E) E g"
  by (simp add: wp_def bnd_def split: prod.splits sum.splits)

lemma wp_try_except [simp]: "wp (try_except m h) Q E g = wp m Q (\<lambda>e. wp (h e) Q E) g"
  by (simp add: wp_def try_except_def split: prod.splits sum.splits)

lemma wp_call [simp]:
  "wp (call ev f) Q E g =
     (case f (world g) of
        (w, Inr x) \<Rightarrow> Q x (g\<lparr>world := w, trace := trace g @ [ev (Inr x)]\<rparr>)
      | (w, Inl e) \<Rightarrow> E e (g\<lparr>world := w, trace := trace g @ [ev (Inl e)]\<rparr>))"
  by (simp add: wp_def call_def split: prod.splits sum.splits)

text \<open>From a computed \<open>wp\<close> back to the statement: about its result, about the state it
  leaves whatever the outcome, and about the state it leaves when it returns.\<close>

lemma wp_result:
  "wp m (\<lambda>x g'. P g' (Inr x)) (\<lambda>e g'. P g' (Inl e)) g \<Longrightarrow> P (fst (m g)) (snd (m g))"
  by (simp add: wp_def split: prod.splits sum.splits)

lemma wp_fst: "wp m (\<lambda>x g'. P g') (\<lambda>e g'. P g') g \<Longrightarrow> P (fst (m g))"
  by (simp add: wp_def split: prod.splits sum.splits)

lemma wp_returns: "m g = (g', Inr x) \<Longrightarrow> wp m (\<lambda>_ g'. P g') (\<lambda>e g'. True) g \<Longrightarrow> P g'"
  by (simp add: wp_def)

lemma returns_collapse: "snd (m g) = Inr x \<Longrightarrow> m g = (fst (m g), Inr x)"
  by (metis prod.collapse)

lemma new_events_append [simp]: "trace g' = trace g @ es \<Longrightarrow> new_events g g' = es"
  by (simp add: new_events_def)

lemma new_events_same [simp]: "new_events g g = []"
  by (simp add: new_events_def)

lemma ex_bool [simp]: "\<exists>b. b" "\<exists>b. \<not> b"
  by auto

lemmas wp_splits = prod.splits sum.splits option.splits

lemmas game_loop_defs = game_loop_def tick_body_def episode_end_def start_training_thread_def

section \<open>The background pass\<close>

lemma wp_background_replay:
  "wp (background_replay ops b e) Q E g =
     (case replay_memory ops b e (world g) of
        (w, Inr None) \<Rightarrow>
          Q () (g\<lparr>world := w,
                  trace := trace g @ [Replay_memory b e (Inr None), Print Training_no_loss]\<rparr>)
      | (w, Inr (Some l)) \<Rightarrow>
          Q () (g\<lparr>world := w, losses := losses g @ [l],
                  trace := trace g @
                    [Replay_memory b e (Inr (Some l)), Print (Training_finished l)]\<rparr>)
      | (w, Inl x) \<Rightarrow>
          Q () (g\<lparr>world := w,
                  trace := trace g @ [Replay_memory b e (Inl x), Print (Training_error x)]\<rparr>))"
  by (simp add: background_replay_def split: wp_splits)

lemma background_replay_returns: "snd (background_replay ops b e g) = Inr ()"
  by (rule wp_result [where P = "\<lambda>g' r. r = Inr ()"])
     (simp add: wp_background_replay split: wp_splits)

lemma finish_thread_returns: "snd (finish_thread ops i g) = Inr ()"
  by (rule wp_result [where P = "\<lambda>g' r. r = Inr ()"])
     (simp add: finish_thread_def wp_background_replay split: wp_splits)

text \<open>
  Claim C4. A training pass never raises, whatever \<^verbatim>\<open>replay_memory\<close> does, and neither does
  the thread that runs it, so nothing reaches the tick. When \<^verbatim>\<open>replay_memory\<close> returns
  \<^verbatim>\<open>None\<close> the pass records no loss and prints that there was none; when it raises, the
  pass records no loss and prints the error; when it returns a loss, the pass appends it
  to \<^verbatim>\<open>losses\<close>.
\<close>

theorem background_replay_contains_failure:
  "snd (background_replay ops b e g) = Inr ()
   \<and> snd (finish_thread ops i g) = Inr ()
   \<and> (\<forall>w. replay_memory ops b e (world g) = (w, Inr None) \<longrightarrow>
        losses (fst (background_replay ops b e g)) = losses g
        \<and> new_events g (fst (background_replay ops b e g)) =
            [Replay_memory b e (Inr None), Print Training_no_loss])
   \<and> (\<forall>w x. replay_memory ops b e (world g) = (w, Inl x) \<longrightarrow>
        losses (fst (background_replay ops b e g)) = losses g
        \<and> new_events g (fst (background_replay ops b e g)) =
            [Replay_memory b e (Inl x), Print (Training_error x)])
   \<and> (\<forall>w l. replay_memory ops b e (world g) = (w, Inr (Some l)) \<longrightarrow>
        losses (fst (background_replay ops b e g)) = losses g @ [l]
        \<and> new_events g (fst (background_replay ops b e g)) =
            [Replay_memory b e (Inr (Some l)), Print (Training_finished l)])"
proof (intro conjI)
  show "snd (background_replay ops b e g) = Inr ()"
    by (rule background_replay_returns)
  show "snd (finish_thread ops i g) = Inr ()"
    by (rule finish_thread_returns)
qed (rule wp_fst, simp add: wp_background_replay split: wp_splits)+

theorem background_replay_contains_failure_witness:
  "replay_memory toy_ops 1024 10 (world (init_globals 0 :: (nat, nat, nat) globals)) = (0, Inr None)
   \<and> snd (background_replay toy_ops 1024 10 (init_globals 0)) = Inr ()
   \<and> losses (fst (background_replay toy_ops 1024 10 (init_globals 0))) = []
   \<and> new_events (init_globals 0 :: (nat, nat, nat) globals)
        (fst (background_replay toy_ops 1024 10 (init_globals 0))) =
        [Replay_memory 1024 10 (Inr None), Print Training_no_loss]
   \<and> new_events (init_globals 0 :: (nat, nat, nat) globals)
        (fst (background_replay
                (toy_ops\<lparr>replay_memory := \<lambda>b e w. (w, Inl (PyException ''out of memory''))\<rparr>)
                1024 10 (init_globals 0))) =
        [Replay_memory 1024 10 (Inl (PyException ''out of memory'')),
         Print (Training_error (PyException ''out of memory''))]
   \<and> losses (fst (background_replay
                (toy_ops\<lparr>replay_memory := \<lambda>b e w. (w, Inr (Some (1 / 2)))\<rparr>)
                1024 10 (init_globals 0 :: (nat, nat, nat) globals))) = [1 / 2]"
  using background_replay_contains_failure
          [of toy_ops 1024 10 "init_globals 0" 0]
        background_replay_contains_failure
          [of "toy_ops\<lparr>replay_memory := \<lambda>b e w. (w, Inl (PyException ''out of memory''))\<rparr>"
              1024 10 "init_globals 0" 0]
        background_replay_contains_failure
          [of "toy_ops\<lparr>replay_memory := \<lambda>b e w. (w, Inr (Some (1 / 2)))\<rparr>"
              1024 10 "init_globals 0" 0]
  by (simp add: toy_ops_def init_globals_def)

section \<open>Loading the model at startup\<close>



section \<open>The instance at work\<close>

lemma init_globals_fields [simp]:
  "world (init_globals w) = w" "trace (init_globals w) = []"
  "training_thread (init_globals w) = None" "threads (init_globals w) = []"
  "last_score (init_globals w) = 0" "time_elapsed (init_globals w) = 0"
  "game_count (init_globals w) = 0" "skip_frame (init_globals w) = False"
  "losses (init_globals w) = []" "scores (init_globals w) = []"
  by (simp_all add: init_globals_def)

lemma toy_episode_returns:
  "game_loop toy_ops (1 / 30) (init_globals 2) = (toy_after_episode, Inr ())"
  unfolding toy_after_episode_def
  by (rule returns_collapse, rule wp_result [where P = "\<lambda>g' r. r = Inr ()"])
     (simp add: game_loop_defs toy_ops_def init_globals_def)

lemma toy_episode_events:
  "new_events (init_globals 2 :: (nat, nat, nat) globals) toy_after_episode =
     [Get_input_data (Inr 2), Calculate_command True (Inr (0, 1, 0)),
      Move 0 1 (1 / 30) (Inr ()), Evaluate (1 / 30) (Inr False),
      Get_score (Inr 3), Get_score (Inr 3), Get_input_data (Inr 3),
      Remember 2 0 3 3 True (Inr ()), Dump_memory_to_cache (Inr ()),
      Print (Game_ended 0), Thread_start 0 1024 10, Get_score (Inr 3),
      Decay_epsilon (Inr ()), Set_last_explore_none,
      Print (Game_starting 1 (4 / 5)), Init_position (Inr ()), Reset_score (Inr ())]"
  unfolding toy_after_episode_def
  by (rule wp_fst) (simp add: game_loop_defs toy_ops_def init_globals_def new_events_def)

lemma toy_after_episode_fields:
  "skip_frame toy_after_episode" "training_thread toy_after_episode = Some 0"
  "threads toy_after_episode = [\<lparr>alive = True, batch_size = 1024, epochs = 10\<rparr>]"
  "world toy_after_episode = 0" "last_score toy_after_episode = 0"
  "time_elapsed toy_after_episode = 0" "game_count toy_after_episode = 1"
  "scores toy_after_episode = [103]"
  unfolding toy_after_episode_def
  by (rule wp_fst, simp add: game_loop_defs toy_ops_def init_globals_def)+

section \<open>The tick of the training loop\<close>

lemma tick_calls_any_outcome:
  assumes "\<not> skip_frame g"
  shows "take 8 (map call_name (new_events g (fst (game_loop ops dt g)))) =
         take (length (new_events g (fst (game_loop ops dt g)))) tick_calls"
  using assms
  by (intro wp_fst [where P = "\<lambda>g'. take 8 (map call_name (new_events g g')) =
         take (length (new_events g g')) tick_calls"])
     (simp add: game_loop_defs tick_calls_def split: wp_splits)

lemma tick_events_when_returns:
  assumes "\<not> skip_frame g" and "game_loop ops dt g = (g', Inr ())"
  shows "\<exists>state turn_rate acceleration_rate action still_alive score score' new_state rest.
     new_events g g' =
       [Get_input_data (Inr state),
        Calculate_command True (Inr (turn_rate, acceleration_rate, action)),
        Move turn_rate acceleration_rate dt (Inr ()),
        Evaluate dt (Inr still_alive),
        Get_score (Inr score),
        Get_score (Inr score'),
        Get_input_data (Inr new_state),
        Remember state action (score - last_score g) new_state (\<not> still_alive) (Inr ())] @ rest
     \<and> (rest = [] \<or> (\<exists>rest'. rest = Dump_memory_to_cache (Inr ()) # rest'))"
proof (rule wp_returns [where m = "game_loop ops dt" and g = g and x = "()" and g' = g'])
  show "game_loop ops dt g = (g', Inr ())" by fact
next
  show "wp (game_loop ops dt)
          (\<lambda>_ g'. \<exists>state turn_rate acceleration_rate action still_alive score score' new_state rest.
             new_events g g' =
               [Get_input_data (Inr state),
                Calculate_command True (Inr (turn_rate, acceleration_rate, action)),
                Move turn_rate acceleration_rate dt (Inr ()),
                Evaluate dt (Inr still_alive),
                Get_score (Inr score),
                Get_score (Inr score'),
                Get_input_data (Inr new_state),
                Remember state action (score - last_score g) new_state (\<not> still_alive) (Inr ())]
               @ rest
             \<and> (rest = [] \<or> (\<exists>rest'. rest = Dump_memory_to_cache (Inr ()) # rest')))
          (\<lambda>e g'. True) g"
    using assms(1)
    by (simp add: game_loop_defs split: wp_splits)
qed

text \<open>
  Claim C1. In a tick that is not skipped, whatever its outcome, the calls come in the
  order \<^verbatim>\<open>get_input_data\<close>, \<^verbatim>\<open>calculate_command\<close>, \<^verbatim>\<open>move\<close>, \<^verbatim>\<open>evaluate\<close>, \<^verbatim>\<open>get_score\<close>,
  \<^verbatim>\<open>get_score\<close>, \<^verbatim>\<open>get_input_data\<close>, \<^verbatim>\<open>remember\<close>, as far as the tick gets. When the tick
  returns, each of them has returned normally: \<^verbatim>\<open>get_input_data\<close> gave the state,
  \<^verbatim>\<open>calculate_command\<close> in training mode the turn rate, the acceleration rate and the
  action, \<^verbatim>\<open>move\<close> was called with these rates and \<^verbatim>\<open>dt\<close>, then \<^verbatim>\<open>evaluate(dt)\<close>, and
  \<^verbatim>\<open>remember\<close> was handed the state, the action, the first score minus \<^verbatim>\<open>last_score\<close>, the
  state read after the evaluation and the negation of what \<^verbatim>\<open>evaluate\<close> returned. What
  follows \<^verbatim>\<open>remember\<close>, if anything, starts with \<^verbatim>\<open>dump_memory_to_cache\<close>.
\<close>

theorem game_loop_order:
  assumes "\<not> skip_frame g"
  shows "take 8 (map call_name (new_events g (fst (game_loop ops dt g)))) =
           take (length (new_events g (fst (game_loop ops dt g)))) tick_calls
     \<and> (game_loop ops dt g = (g', Inr ()) \<longrightarrow>
         (\<exists>state turn_rate acceleration_rate action still_alive score score' new_state rest.
            new_events g g' =
              [Get_input_data (Inr state),
               Calculate_command True (Inr (turn_rate, acceleration_rate, action)),
               Move turn_rate acceleration_rate dt (Inr ()),
               Evaluate dt (Inr still_alive),
               Get_score (Inr score),
               Get_score (Inr score'),
               Get_input_data (Inr new_state),
               Remember state action (score - last_score g) new_state (\<not> still_alive) (Inr ())]
              @ rest
            \<and> (rest = [] \<or> (\<exists>rest'. rest = Dump_memory_to_cache (Inr ()) # rest'))))"
  using tick_calls_any_outcome [OF assms] tick_events_when_returns [OF assms]
  by blast

lemma toy_failed_move_events:
  "new_events (init_globals 0 :: (nat, nat, nat) globals)
     (fst (game_loop (toy_ops\<lparr>move := \<lambda>t a d w. (w, Inl (PyException ''wheel''))\<rparr>)
             (1 / 30) (init_globals 0))) =
     [Get_input_data (Inr 0), Calculate_command True (Inr (0, 1, 0)),
      Move 0 1 (1 / 30) (Inl (PyException ''wheel''))]"
  by (rule wp_fst) (simp add: game_loop_defs toy_ops_def init_globals_def new_events_def)

theorem game_loop_order_witness:
  "\<not> skip_frame (init_globals 2 :: (nat, nat, nat) globals)
   \<and> game_loop toy_ops (1 / 30) (init_globals 2) = (toy_after_episode, Inr ())
   \<and> take 8 (map call_name
        (new_events (init_globals 2 :: (nat, nat, nat) globals) toy_after_episode)) = tick_calls
   \<and> (\<exists>state turn_rate acceleration_rate action still_alive score score' new_state rest.
     new_events (init_globals 2 :: (nat, nat, nat) globals) toy_after_episode =
       [Get_input_data (Inr state),
        Calculate_command True (Inr (turn_rate, acceleration_rate, action)),
        Move turn_rate acceleration_rate (1 / 30) (Inr ()),
        Evaluate (1 / 30) (Inr still_alive),
        Get_score (Inr score),
        Get_score (Inr score'),
        Get_input_data (Inr new_state),
        Remember state action (score - 0) new_state (\<not> still_alive) (Inr ())] @ rest
     \<and> (rest = [] \<or> (\<exists>rest'. rest = Dump_memory_to_cache (Inr ()) # rest')))
   \<and> map call_name
        (new_events (init_globals 0 :: (nat, nat, nat) globals)
           (fst (game_loop (toy_ops\<lparr>move := \<lambda>t a d w. (w, Inl (PyException ''wheel''))\<rparr>)
                   (1 / 30) (init_globals 0)))) = take 3 tick_calls"
proof -
  have a: "\<not> skip_frame (init_globals w :: (nat, nat, nat) globals)" for w
    by simp
  have b: "last_score (init_globals 2 :: (nat, nat, nat) globals) = 0"
    by simp
  note c = game_loop_order
      [where g = "init_globals 2" and ops = toy_ops and dt = "1 / 30" and g' = toy_after_episode,
       OF a, folded toy_after_episode_def]
  note d = game_loop_order
      [where g = "init_globals 0" and dt = "1 / 30" and
         ops = "toy_ops\<lparr>move := \<lambda>t a d w. (w, Inl (PyException ''wheel''))\<rparr>", OF a]
  from c have 1: "take 8 (map call_name
        (new_events (init_globals 2 :: (nat, nat, nat) globals) toy_after_episode)) = tick_calls"
    by (simp add: toy_episode_events tick_calls_def)
  from c toy_episode_returns have 2:
    "\<exists>state turn_rate acceleration_rate action still_alive score score' new_state rest.
     new_events (init_globals 2 :: (nat, nat, nat) globals) toy_after_episode =
       [Get_input_data (Inr state),
        Calculate_command True (Inr (turn_rate, acceleration_rate, action)),
        Move turn_rate acceleration_rate (1 / 30) (Inr ()),
        Evaluate (1 / 30) (Inr still_alive),
        Get_score (Inr score),
        Get_score (Inr score'),
        Get_input_data (Inr new_state),
        Remember state action (score - 0) new_state (\<not> still_alive) (Inr ())] @ rest
     \<and> (rest = [] \<or> (\<exists>rest'. rest = Dump_memory_to_cache (Inr ()) # rest'))"
    unfolding b by blast
  from d have 3: "map call_name
        (new_events (init_globals 0 :: (nat, nat, nat) globals)
           (fst (game_loop (toy_ops\<lparr>move := \<lambda>t a d w. (w, Inl (PyException ''wheel''))\<rparr>)
                   (1 / 30) (init_globals 0)))) = take 3 tick_calls"
    by (simp add: toy_failed_move_events tick_calls_def)
  from a toy_episode_returns 1 2 3 show ?thesis by blast
qed

text \<open>
  Claim C2, as the code has it. In a tick that returns, the episode-end branch runs (it is
  the only place that calls \<^verbatim>\<open>dump_memory_to_cache\<close>) exactly when the tick is not skipped
  and either \<^verbatim>\<open>evaluate(dt)\<close> returned a false value or the time elapsed in the episode,
  this tick's \<^verbatim>\<open>dt\<close> included, has reached 300 seconds.
\<close>

theorem episode_ends_iff_dead_or_timeout:
  assumes "game_loop ops dt g = (g', Inr ())"
  shows "list_ex is_dump (new_events g g') \<longleftrightarrow>
         \<not> skip_frame g \<and>
         (list_ex is_evaluate_falsy (new_events g g') \<or> time_elapsed g + dt \<ge> 300)"
proof (rule wp_returns [where m = "game_loop ops dt" and g = g and x = "()" and g' = g'])
  show "game_loop ops dt g = (g', Inr ())" by fact
next
  show "wp (game_loop ops dt)
          (\<lambda>_ g'. list_ex is_dump (new_events g g') \<longleftrightarrow>
             \<not> skip_frame g \<and>
             (list_ex is_evaluate_falsy (new_events g g') \<or> time_elapsed g + dt \<ge> 300))
          (\<lambda>e g'. True) g"
    by (simp add: game_loop_defs split: wp_splits)
qed

theorem episode_ends_iff_dead_or_timeout_witness:
  "game_loop toy_ops (1 / 30) (init_globals 2) = (toy_after_episode, Inr ())
   \<and> list_ex is_dump (new_events (init_globals 2 :: (nat, nat, nat) globals) toy_after_episode)
   \<and> \<not> skip_frame (init_globals 2 :: (nat, nat, nat) globals)
   \<and> list_ex is_evaluate_falsy
       (new_events (init_globals 2 :: (nat, nat, nat) globals) toy_after_episode)"
  using episode_ends_iff_dead_or_timeout [OF toy_episode_returns] toy_episode_returns
  by (simp add: toy_episode_events)

lemma calm_tick:
  assumes "\<not> skip_frame g" and "time_elapsed g + 1 / 30 < 300"
  shows "snd (game_loop calm_ops (1 / 30) g) = Inr ()
       \<and> \<not> skip_frame (fst (game_loop calm_ops (1 / 30) g))
       \<and> time_elapsed (fst (game_loop calm_ops (1 / 30) g)) = time_elapsed g + 1 / 30"
  using assms
  by (intro wp_result [where P = "\<lambda>g' r. r = Inr () \<and> \<not> skip_frame g'
        \<and> time_elapsed g' = time_elapsed g + 1 / 30"])
     (simp add: game_loop_defs calm_ops_def toy_ops_def)

lemma calm_run:
  "\<not> skip_frame g \<Longrightarrow> time_elapsed g + real n / 30 < 300 \<Longrightarrow>
   snd (run calm_ops (replicate n (Tick (1 / 30))) g) = Inr ()
   \<and> \<not> skip_frame (fst (run calm_ops (replicate n (Tick (1 / 30))) g))
   \<and> time_elapsed (fst (run calm_ops (replicate n (Tick (1 / 30))) g)) =
       time_elapsed g + real n / 30"
proof (induction n arbitrary: g)
  case 0
  then show ?case by (simp add: ret_def)
next
  case (Suc n)
  from Suc.prems have "time_elapsed g + 1 / 30 < 300"
    by (simp add: field_simps)
  note t = calm_tick [OF Suc.prems(1) this]
  obtain g1 where g1: "game_loop calm_ops (1 / 30) g = (g1, Inr ())"
    using t by (metis prod.collapse)
  with t have a: "\<not> skip_frame g1" and b: "time_elapsed g1 = time_elapsed g + 1 / 30"
    by simp_all
  from Suc.prems b have "time_elapsed g1 + real n / 30 < 300"
    by (simp add: field_simps)
  note ih = Suc.IH [OF a this]
  have "run calm_ops (replicate (Suc n) (Tick (1 / 30))) g =
        run calm_ops (replicate n (Tick (1 / 30))) g1"
    using g1 by (simp add: step_def bnd_def)
  with ih b show ?case by (simp add: field_simps)
qed

lemma long_episode_fields:
  "snd (run calm_ops (replicate 8999 (Tick (1 / 30))) (init_globals 0)) = Inr ()"
  "\<not> skip_frame long_episode" "time_elapsed long_episode = 8999 / 30"
  using calm_run [of "init_globals 0" 8999]
  by (simp_all add: long_episode_def)

text \<open>
  Claim C2 as stated fails: 8999 ticks of a thirtieth of a second into an episode, the
  next tick ends the episode although \<^verbatim>\<open>evaluate\<close> has just reported the car alive, as
  it has in every tick before.
\<close>

theorem episode_ends_while_alive:
  "snd (run calm_ops (replicate 8999 (Tick (1 / 30))) (init_globals 0)) = Inr ()
   \<and> snd (game_loop calm_ops (1 / 30) long_episode) = Inr ()
   \<and> Evaluate (1 / 30) (Inr True) \<in> set
       (new_events long_episode (fst (game_loop calm_ops (1 / 30) long_episode)))
   \<and> list_ex is_dump
       (new_events long_episode (fst (game_loop calm_ops (1 / 30) long_episode)))
   \<and> \<not> list_ex is_evaluate_falsy
       (new_events long_episode (fst (game_loop calm_ops (1 / 30) long_episode)))"
proof -
  have "snd (game_loop calm_ops (1 / 30) long_episode) = Inr ()
   \<and> Evaluate (1 / 30) (Inr True) \<in> set
       (new_events long_episode (fst (game_loop calm_ops (1 / 30) long_episode)))
   \<and> list_ex is_dump
       (new_events long_episode (fst (game_loop calm_ops (1 / 30) long_episode)))
   \<and> \<not> list_ex is_evaluate_falsy
       (new_events long_episode (fst (game_loop calm_ops (1 / 30) long_episode)))"
    by (rule wp_result [where P = "\<lambda>g' r. r = Inr ()
          \<and> Evaluate (1 / 30) (Inr True) \<in> set (new_events long_episode g')
          \<and> list_ex is_dump (new_events long_episode g')
          \<and> \<not> list_ex is_evaluate_falsy (new_events long_episode g')"])
       (simp add: game_loop_defs calm_ops_def toy_ops_def long_episode_fields
          split: wp_splits)
  with long_episode_fields(1) show ?thesis by simp
qed

text \<open>
  Claim C6. Among the events of a tick, whatever its outcome, no training thread is
  started before \<^verbatim>\<open>dump_memory_to_cache\<close> has returned normally; and a tick that ends
  the episode and returns while no training thread is alive does start one.
\<close>

theorem dump_before_training_start:
  "preceded_by is_dump_done is_thread_start (new_events g (fst (game_loop ops dt g)))
   \<and> (snd (game_loop ops dt g) = Inr ()
        \<and> list_ex is_dump (new_events g (fst (game_loop ops dt g)))
        \<and> (\<forall>i. training_thread g = Some i \<longrightarrow> \<not> is_alive g i)
      \<longrightarrow> list_ex is_thread_start (new_events g (fst (game_loop ops dt g))))"
  by (rule wp_result [where P = "\<lambda>g' r. _ g' \<and> (r = Inr () \<and> _ g' \<and> _ \<longrightarrow> _ g')"])
     (simp add: game_loop_defs is_alive_def split: wp_splits)

theorem dump_before_training_start_witness:
  "snd (game_loop toy_ops (1 / 30) (init_globals 2)) = Inr ()
   \<and> list_ex is_dump (new_events (init_globals 2 :: (nat, nat, nat) globals) toy_after_episode)
   \<and> training_thread (init_globals 2 :: (nat, nat, nat) globals) = None
   \<and> list_ex is_thread_start
       (new_events (init_globals 2 :: (nat, nat, nat) globals) toy_after_episode)
   \<and> preceded_by is_dump_done is_thread_start
       (new_events (init_globals 2 :: (nat, nat, nat) globals) toy_after_episode)"
  using dump_before_training_start
          [of "init_globals 2" toy_ops "1 / 30", folded toy_after_episode_def]
        toy_episode_returns
  by (simp add: toy_episode_events)

text \<open>
  Claim C10. A tick entered with \<^verbatim>\<open>skip_frame\<close> set returns at once: it calls nothing,
  leaves the store, the clock and every other global as they were, and only clears the
  flag. It is the tick that follows an episode reset: a tick that has run the
  episode-end branch and returned leaves the flag set.
\<close>

theorem skip_frame_tick_is_idle:
  "(skip_frame g \<longrightarrow> game_loop ops dt g = (g\<lparr>skip_frame := False\<rparr>, Inr ()))
   \<and> (game_loop ops dt g = (g', Inr ()) \<and> list_ex is_dump (new_events g g') \<longrightarrow> skip_frame g')"
proof (intro conjI impI)
  assume "skip_frame g"
  then show "game_loop ops dt g = (g\<lparr>skip_frame := False\<rparr>, Inr ())"
    by (simp add: game_loop_def bnd_def gets_def modify_def)
next
  assume a: "game_loop ops dt g = (g', Inr ()) \<and> list_ex is_dump (new_events g g')"
  have "wp (game_loop ops dt) (\<lambda>_ g'. list_ex is_dump (new_events g g') \<longrightarrow> skip_frame g')
          (\<lambda>e g'. True) g"
    by (simp add: game_loop_defs split: wp_splits)
  from wp_returns [OF conjunct1 [OF a] this] a show "skip_frame g'" by simp
qed

theorem skip_frame_tick_is_idle_witness:
  "game_loop toy_ops (1 / 30) (init_globals 2) = (toy_after_episode, Inr ())
   \<and> list_ex is_dump (new_events (init_globals 2 :: (nat, nat, nat) globals) toy_after_episode)
   \<and> skip_frame toy_after_episode
   \<and> game_loop toy_ops (1 / 30) toy_after_episode =
       (toy_after_episode\<lparr>skip_frame := False\<rparr>, Inr ())"
  using skip_frame_tick_is_idle [of "init_globals 2" toy_ops "1 / 30" toy_after_episode]
        skip_frame_tick_is_idle [of toy_after_episode toy_ops "1 / 30"]
        toy_episode_returns
  by (simp add: toy_episode_events)

section \<open>One training pass at a time\<close>

lemma single_alive_start:
  "single_alive ts t \<Longrightarrow> (\<forall>i. t = Some i \<longrightarrow> \<not> (i < length ts \<and> alive (ts ! i))) \<Longrightarrow>
   single_alive (ts @ [u]) (Some (length ts))"
  unfolding single_alive_def
  by (metis less_Suc_eq length_append_singleton nth_append)

lemma single_alive_finish:
  "single_alive ts t \<Longrightarrow> single_alive (ts[i := (ts ! i)\<lparr>alive := False\<rparr>]) t"
  by (cases "i < length ts") (auto simp: single_alive_def nth_list_update)

lemma single_alive_butlast: "single_alive (ts @ [u]) t \<Longrightarrow> single_alive ts t"
  unfolding single_alive_def
  by (metis length_append_singleton less_Suc_eq nth_append)

lemma single_alive_count: "single_alive ts t \<Longrightarrow> length (filter alive ts) \<le> 1"
proof (induction ts rule: rev_induct)
  case Nil
  then show ?case by simp
next
  case (snoc u ts)
  show ?case
  proof (cases "alive u")
    case True
    have "\<not> alive (ts ! i)" if i: "i < length ts" for i
    proof
      assume a: "alive (ts ! i)"
      from snoc.prems i a have "t = Some i"
        unfolding single_alive_def
        by (metis length_append_singleton less_Suc_eq nth_append)
      moreover from snoc.prems True have "t = Some (length ts)"
        unfolding single_alive_def
        by (metis length_append_singleton lessI nth_append_length)
      ultimately show False using i by simp
    qed
    then have "filter alive ts = []"
      by (auto simp: filter_empty_conv in_set_conv_nth)
    then show ?thesis by simp
  next
    case False
    with snoc.IH [OF single_alive_butlast [OF snoc.prems]] show ?thesis by simp
  qed
qed

lemma game_loop_single_alive:
  "single_alive (threads g) (training_thread g) \<Longrightarrow>
   single_alive (threads (fst (game_loop ops dt g))) (training_thread (fst (game_loop ops dt g)))"
  by (rule wp_fst [where P = "\<lambda>g'. single_alive (threads g') (training_thread g')"])
     (auto simp add: game_loop_defs is_alive_def single_alive_start split: wp_splits)

lemma finish_thread_single_alive:
  "single_alive (threads g) (training_thread g) \<Longrightarrow>
   single_alive (threads (fst (finish_thread ops i g)))
     (training_thread (fst (finish_thread ops i g)))"
  by (rule wp_fst [where P = "\<lambda>g'. single_alive (threads g') (training_thread g')"])
     (auto simp add: finish_thread_def wp_background_replay single_alive_finish split: wp_splits)

lemma run_single_alive:
  "single_alive (threads g) (training_thread g) \<Longrightarrow>
   single_alive (threads (fst (run ops evs g))) (training_thread (fst (run ops evs g)))"
proof (induction evs arbitrary: g)
  case Nil
  then show ?case by (simp add: ret_def)
next
  case (Cons ev evs)
  have "single_alive (threads (fst (step ops ev g))) (training_thread (fst (step ops ev g)))"
    using Cons.prems
    by (cases ev) (simp_all add: step_def game_loop_single_alive finish_thread_single_alive)
  then show ?case
    using Cons.IH [of "fst (step ops ev g)"]
    by (cases "step ops ev g") (auto simp: bnd_def split: sum.splits)
qed

lemma toy_second_episode_fields:
  "training_thread toy_second_episode = Some 0" "is_alive toy_second_episode 0"
  "threads toy_second_episode = [\<lparr>alive = True, batch_size = 1024, epochs = 10\<rparr>]"
  "\<not> skip_frame toy_second_episode" "world toy_second_episode = 2"
  unfolding toy_second_episode_def
  by (rule wp_fst, simp add: step_def game_loop_defs is_alive_def toy_ops_def init_globals_def)+

text \<open>
  Claim C5. Whatever the schedule of ticks and of training passes coming to their end, at
  most one training thread is alive at any time. A tick entered while the thread that
  \<^verbatim>\<open>training_thread\<close> refers to is alive starts no thread and leaves \<^verbatim>\<open>training_thread\<close>
  and the threads as they are, whatever its outcome; when it has dumped the memory (the
  episode ended), it prints that training is already running. The dumped memory stays in
  the store for the pass that a later episode end starts.
\<close>

theorem at_most_one_training_pass:
  "length (filter alive (threads (fst (run ops evs (init_globals w))))) \<le> 1
   \<and> (training_thread g = Some i \<and> is_alive g i \<longrightarrow>
        threads (fst (game_loop ops dt g)) = threads g
        \<and> training_thread (fst (game_loop ops dt g)) = Some i
        \<and> \<not> list_ex is_thread_start (new_events g (fst (game_loop ops dt g)))
        \<and> (list_ex is_dump_done (new_events g (fst (game_loop ops dt g))) \<longrightarrow>
             Print Training_already_running \<in> set (new_events g (fst (game_loop ops dt g)))))"
proof (intro conjI impI)
  show "length (filter alive (threads (fst (run ops evs (init_globals w))))) \<le> 1"
    by (rule single_alive_count [OF run_single_alive]) (simp add: single_alive_def)
next
  assume a: "training_thread g = Some i \<and> is_alive g i"
  have "threads (fst (game_loop ops dt g)) = threads g
        \<and> training_thread (fst (game_loop ops dt g)) = Some i
        \<and> \<not> list_ex is_thread_start (new_events g (fst (game_loop ops dt g)))
        \<and> (list_ex is_dump_done (new_events g (fst (game_loop ops dt g))) \<longrightarrow>
             Print Training_already_running \<in> set (new_events g (fst (game_loop ops dt g))))"
    using a
    by (intro wp_fst [where P = "\<lambda>g'. threads g' = threads g
          \<and> training_thread g' = Some i
          \<and> \<not> list_ex is_thread_start (new_events g g')
          \<and> (list_ex is_dump_done (new_events g g') \<longrightarrow>
               Print Training_already_running \<in> set (new_events g g'))"])
       (simp add: game_loop_defs is_alive_def split: wp_splits)
  then show "threads (fst (game_loop ops dt g)) = threads g"
    and "training_thread (fst (game_loop ops dt g)) = Some i"
    and "\<not> list_ex is_thread_start (new_events g (fst (game_loop ops dt g)))"
    and "list_ex is_dump_done (new_events g (fst (game_loop ops dt g))) \<Longrightarrow>
         Print Training_already_running \<in> set (new_events g (fst (game_loop ops dt g)))"
    by simp_all
qed

theorem at_most_one_training_pass_witness:
  "length (filter alive (threads toy_second_episode)) = 1
   \<and> training_thread toy_second_episode = Some 0 \<and> is_alive toy_second_episode 0
   \<and> threads (fst (game_loop toy_ops (1 / 30) toy_second_episode)) = threads toy_second_episode
   \<and> training_thread (fst (game_loop toy_ops (1 / 30) toy_second_episode)) = Some 0
   \<and> list_ex is_dump_done
       (new_events toy_second_episode (fst (game_loop toy_ops (1 / 30) toy_second_episode)))
   \<and> Print Training_already_running \<in> set
       (new_events toy_second_episode (fst (game_loop toy_ops (1 / 30) toy_second_episode)))"
proof -
  have d: "list_ex is_dump_done
       (new_events toy_second_episode (fst (game_loop toy_ops (1 / 30) toy_second_episode)))"
    unfolding toy_second_episode_def
    by (rule wp_fst [where m = "run toy_ops _" and
          P = "\<lambda>g. list_ex is_dump_done (new_events g (fst (game_loop toy_ops (1 / 30) g)))"],
        simp add: step_def game_loop_defs is_alive_def toy_ops_def init_globals_def,
        rule wp_fst,
        simp add: step_def game_loop_defs is_alive_def toy_ops_def init_globals_def)
  from at_most_one_training_pass
         [of toy_ops "[Tick (1 / 30), Tick (1 / 30), Tick (1 / 30), Tick (1 / 30)]" 2
             toy_second_episode 0 "1 / 30", folded toy_second_episode_def]
       d
  show ?thesis by (simp add: toy_second_episode_fields)
qed

section \<open>Rewards\<close>

lemma rewards_append: "rewards (xs @ ys) = rewards xs @ rewards ys"
  by (induction xs rule: rewards.induct) simp_all

lemma new_events_trans:
  "trace g1 = trace g @ new_events g g1 \<Longrightarrow> trace g2 = trace g1 @ new_events g1 g2 \<Longrightarrow>
   new_events g g2 = new_events g g1 @ new_events g1 g2"
  by (metis append.assoc new_events_append)

text \<open>What a tick that returns does to the episode counter, the trace and the rewards,
  when \<^verbatim>\<open>get_score\<close> only reads the store.\<close>

lemma tick_rewards:
  assumes pure: "get_score ops = (\<lambda>w. (w, Inr (score_of w)))"
    and r: "game_loop ops dt g = (g1, Inr ())"
  shows "game_count g \<le> game_count g1
       \<and> trace g1 = trace g @ new_events g g1
       \<and> (game_count g1 = game_count g \<longrightarrow>
            sum_list (rewards (new_events g g1)) = last_score g1 - last_score g)"
proof (rule wp_returns [where m = "game_loop ops dt" and g = g and x = "()" and g' = g1])
  show "game_loop ops dt g = (g1, Inr ())" by fact
next
  show "wp (game_loop ops dt)
          (\<lambda>_ g1. game_count g \<le> game_count g1
             \<and> trace g1 = trace g @ new_events g g1
             \<and> (game_count g1 = game_count g \<longrightarrow>
                  sum_list (rewards (new_events g g1)) = last_score g1 - last_score g))
          (\<lambda>e g'. True) g"
    by (simp add: game_loop_defs pure split: wp_splits)
qed

lemma run_ticks_rewards:
  assumes pure: "get_score ops = (\<lambda>w. (w, Inr (score_of w)))"
  shows "run ops (map Tick dts) g = (g1, Inr ()) \<Longrightarrow>
         game_count g \<le> game_count g1
       \<and> trace g1 = trace g @ new_events g g1
       \<and> (game_count g1 = game_count g \<longrightarrow>
            sum_list (rewards (new_events g g1)) = last_score g1 - last_score g)"
proof (induction dts arbitrary: g)
  case Nil
  then have "g1 = g" by (simp add: ret_def)
  then show ?case by (simp add: new_events_def)
next
  case (Cons dt dts)
  from Cons.prems have "bnd (game_loop ops dt) (\<lambda>_. run ops (map Tick dts)) g = (g1, Inr ())"
    by (simp add: step_def)
  then obtain g' where
    t: "game_loop ops dt g = (g', Inr ())" and rest: "run ops (map Tick dts) g' = (g1, Inr ())"
    by (cases "game_loop ops dt g") (auto simp: bnd_def split: sum.splits)
  note a = tick_rewards [OF pure t] and b = Cons.IH [OF rest]
  have n: "new_events g g1 = new_events g g' @ new_events g' g1"
    using a b by (intro new_events_trans) blast+
  have c: "game_count g \<le> game_count g1"
    using a b by linarith
  have d: "trace g1 = trace g @ new_events g g1"
    using a b unfolding n by (metis append.assoc)
  have "sum_list (rewards (new_events g g1)) = last_score g1 - last_score g"
    if e: "game_count g1 = game_count g"
  proof -
    from e a b have "game_count g' = game_count g" and "game_count g1 = game_count g'"
      by linarith+
    with a b have "sum_list (rewards (new_events g g')) = last_score g' - last_score g"
      and "sum_list (rewards (new_events g' g1)) = last_score g1 - last_score g'"
      by blast+
    then show ?thesis
      unfolding n rewards_append sum_list_append by linarith
  qed
  with c d show ?case by blast
qed

lemma last_tick_rewards:
  assumes pure: "get_score ops = (\<lambda>w. (w, Inr (score_of w)))"
    and ns: "\<not> skip_frame g1"
    and r: "game_loop ops dt g1 = (g2, Inr ())"
  shows "\<exists>state turn_rate acceleration_rate action still_alive score new_state rest.
     new_events g1 g2 =
       [Get_input_data (Inr state),
        Calculate_command True (Inr (turn_rate, acceleration_rate, action)),
        Move turn_rate acceleration_rate dt (Inr ()),
        Evaluate dt (Inr still_alive),
        Get_score (Inr score),
        Get_score (Inr score),
        Get_input_data (Inr new_state),
        Remember state action (score - last_score g1) new_state (\<not> still_alive) (Inr ())] @ rest
     \<and> rewards rest = []
     \<and> trace g2 = trace g1 @ new_events g1 g2
     \<and> last_score g2 = (if list_ex is_dump (new_events g1 g2) then 0 else score)"
proof (rule wp_returns [where m = "game_loop ops dt" and g = g1 and x = "()" and g' = g2])
  show "game_loop ops dt g1 = (g2, Inr ())" by fact
next
  show "wp (game_loop ops dt)
          (\<lambda>_ g2. \<exists>state turn_rate acceleration_rate action still_alive score new_state rest.
             new_events g1 g2 =
               [Get_input_data (Inr state),
                Calculate_command True (Inr (turn_rate, acceleration_rate, action)),
                Move turn_rate acceleration_rate dt (Inr ()),
                Evaluate dt (Inr still_alive),
                Get_score (Inr score),
                Get_score (Inr score),
                Get_input_data (Inr new_state),
                Remember state action (score - last_score g1) new_state (\<not> still_alive) (Inr ())]
               @ rest
             \<and> rewards rest = []
             \<and> trace g2 = trace g1 @ new_events g1 g2
             \<and> last_score g2 = (if list_ex is_dump (new_events g1 g2) then 0 else score))
          (\<lambda>e g'. True) g1"
    using ns
    by (simp add: game_loop_defs pure split: wp_splits)
qed

text \<open>
  Claim C9. Let \<^verbatim>\<open>get_score\<close> only read the store. Take ticks that all return and end no
  episode, from globals whose \<^verbatim>\<open>last_score\<close> is 0 (as at program start and after every
  episode end), and one more tick that is not skipped and returns. The transition this
  tick remembers carries as reward the score read after its \<^verbatim>\<open>evaluate(dt)\<close> minus the
  \<^verbatim>\<open>last_score\<close> left by the tick before; the tick leaves that score in \<^verbatim>\<open>last_score\<close>,
  or 0 when it ends the episode; and the rewards remembered since the start add up to
  that score. Scores are real numbers here: the rounding of floating-point subtraction
  and addition is not modelled.
\<close>

theorem rewards_telescope:
  assumes "get_score ops = (\<lambda>w. (w, Inr (score_of w)))"
    and "last_score g = 0"
    and "run ops (map Tick dts) g = (g1, Inr ())"
    and "game_count g1 = game_count g"
    and "\<not> skip_frame g1"
    and "game_loop ops dt g1 = (g2, Inr ())"
  shows "\<exists>state turn_rate acceleration_rate action still_alive score new_state rest.
     new_events g1 g2 =
       [Get_input_data (Inr state),
        Calculate_command True (Inr (turn_rate, acceleration_rate, action)),
        Move turn_rate acceleration_rate dt (Inr ()),
        Evaluate dt (Inr still_alive),
        Get_score (Inr score),
        Get_score (Inr score),
        Get_input_data (Inr new_state),
        Remember state action (score - last_score g1) new_state (\<not> still_alive) (Inr ())] @ rest
     \<and> last_score g2 = (if list_ex is_dump (new_events g1 g2) then 0 else score)
     \<and> sum_list (rewards (new_events g g2)) = score"
proof -
  from last_tick_rewards [OF assms(1) assms(5) assms(6)]
  obtain state turn_rate acceleration_rate action still_alive score new_state rest where
    ev: "new_events g1 g2 =
       [Get_input_data (Inr state),
        Calculate_command True (Inr (turn_rate, acceleration_rate, action)),
        Move turn_rate acceleration_rate dt (Inr ()),
        Evaluate dt (Inr still_alive),
        Get_score (Inr score),
        Get_score (Inr score),
        Get_input_data (Inr new_state),
        Remember state action (score - last_score g1) new_state (\<not> still_alive) (Inr ())] @ rest"
    and rest: "rewards rest = []"
    and tr: "trace g2 = trace g1 @ new_events g1 g2"
    and ls: "last_score g2 = (if list_ex is_dump (new_events g1 g2) then 0 else score)"
    by blast
  note run = run_ticks_rewards [OF assms(1) assms(3)]
  from run have tr1: "trace g1 = trace g @ new_events g g1"
    by blast
  from run assms(4) have "sum_list (rewards (new_events g g1)) = last_score g1 - last_score g"
    by blast
  with assms(2) have sum1: "sum_list (rewards (new_events g g1)) = last_score g1"
    by linarith
  have "rewards (new_events g1 g2) = [score - last_score g1]"
    unfolding ev by (simp add: rewards_append rest)
  then have "sum_list (rewards (new_events g g2)) = score"
    unfolding new_events_trans [OF tr1 tr] rewards_append sum_list_append sum1 by simp
  with ev ls show ?thesis by blast
qed

lemma toy_mid_episode_returns:
  "run toy_ops (map Tick [1 / 30, 1 / 30]) (init_globals 0) = (toy_mid_episode, Inr ())"
  unfolding toy_mid_episode_def
  by (rule returns_collapse, rule wp_result [where P = "\<lambda>g' r. r = Inr ()"])
     (simp add: step_def game_loop_defs toy_ops_def init_globals_def)

lemma toy_mid_episode_fields:
  "game_count toy_mid_episode = 0" "\<not> skip_frame toy_mid_episode"
  "last_score toy_mid_episode = 2"
  unfolding toy_mid_episode_def
  by (rule wp_fst, simp add: step_def game_loop_defs toy_ops_def init_globals_def)+

lemma toy_end_of_episode_returns:
  "game_loop toy_ops (1 / 30) toy_mid_episode = (toy_end_of_episode, Inr ())"
  unfolding toy_end_of_episode_def toy_mid_episode_def
  by (rule returns_collapse,
      rule wp_fst [where m = "run toy_ops _" and
        P = "\<lambda>g. snd (game_loop toy_ops (1 / 30) g) = Inr ()"],
      simp add: step_def game_loop_defs toy_ops_def init_globals_def,
      rule wp_result [where P = "\<lambda>g' r. r = Inr ()"],
      simp add: step_def game_loop_defs toy_ops_def init_globals_def)

lemma toy_end_of_episode_events:
  "new_events toy_mid_episode toy_end_of_episode =
     [Get_input_data (Inr 2), Calculate_command True (Inr (0, 1, 0)),
      Move 0 1 (1 / 30) (Inr ()), Evaluate (1 / 30) (Inr False),
      Get_score (Inr 3), Get_score (Inr 3), Get_input_data (Inr 3),
      Remember 2 0 1 3 True (Inr ()), Dump_memory_to_cache (Inr ()),
      Print (Game_ended 0), Thread_start 0 1024 10, Get_score (Inr 3),
      Decay_epsilon (Inr ()), Set_last_explore_none,
      Print (Game_starting 1 (4 / 5)), Init_position (Inr ()), Reset_score (Inr ())]"
  unfolding toy_end_of_episode_def toy_mid_episode_def
  by (rule wp_fst [where m = "run toy_ops _" and
        P = "\<lambda>g. new_events g (fst (game_loop toy_ops (1 / 30) g)) = _"],
      simp add: step_def game_loop_defs toy_ops_def init_globals_def,
      rule wp_fst,
      simp add: step_def game_loop_defs toy_ops_def init_globals_def)

theorem rewards_telescope_witness:
  "get_score toy_ops = (\<lambda>w. (w, Inr (real w)))
   \<and> last_score (init_globals 0 :: (nat, nat, nat) globals) = 0
   \<and> run toy_ops (map Tick [1 / 30, 1 / 30]) (init_globals 0) = (toy_mid_episode, Inr ())
   \<and> game_count toy_mid_episode = game_count (init_globals 0 :: (nat, nat, nat) globals)
   \<and> \<not> skip_frame toy_mid_episode
   \<and> game_loop toy_ops (1 / 30) toy_mid_episode = (toy_end_of_episode, Inr ())
   \<and> last_score toy_end_of_episode = 0
   \<and> sum_list (rewards (new_events (init_globals 0 :: (nat, nat, nat) globals)
                          toy_end_of_episode)) = 3"
proof -
  have h1: "get_score toy_ops = (\<lambda>w. (w, Inr (real w)))"
    by (simp add: toy_ops_def)
  have h2: "last_score (init_globals 0 :: (nat, nat, nat) globals) = 0"
    by simp
  have h4: "game_count toy_mid_episode = game_count (init_globals 0 :: (nat, nat, nat) globals)"
    by (simp add: toy_mid_episode_fields)
  have h5: "\<not> skip_frame toy_mid_episode"
    by (simp add: toy_mid_episode_fields)
  from rewards_telescope
         [OF h1 h2 toy_mid_episode_returns h4 h5 toy_end_of_episode_returns]
  obtain score where
    "Get_score (Inr score) =
       (new_events toy_mid_episode toy_end_of_episode ! 4 :: (nat, nat) event)"
    and "last_score toy_end_of_episode =
       (if list_ex is_dump (new_events toy_mid_episode toy_end_of_episode) then 0 else score)"
    and "sum_list (rewards (new_events (init_globals 0 :: (nat, nat, nat) globals)
                             toy_end_of_episode)) = score"
    by force
  then show ?thesis
    using h1 h2 h4 h5 toy_mid_episode_returns toy_end_of_episode_returns
    by (simp add: toy_end_of_episode_events)
qed

section \<open>Closing the window\<close>

text \<open>
  Claim C7. \<^verbatim>\<open>on_close\<close> always returns \<^verbatim>\<open>True\<close> and always attempts to save the model to
  \<^verbatim>\<open>model.h5\<close>. When a training pass is in flight it first prints that it waits and joins
  the training thread with a timeout of ten seconds; no save comes before that join, and
  a pass that ends within the timeout has ended before the save. When the save raises,
  the exception is caught and printed, and the close goes on.
\<close>

theorem on_close_waits_then_saves:
  "snd (on_close ops ends_in_time g) = Inr True
   \<and> list_ex is_save (new_events g (fst (on_close ops ends_in_time g)))
   \<and> (training_thread g = Some i \<and> is_alive g i \<longrightarrow>
        hd (new_events g (fst (on_close ops ends_in_time g))) = Print Waiting_for_training
        \<and> Thread_join i 10 \<in> set (new_events g (fst (on_close ops ends_in_time g)))
        \<and> preceded_by (\<lambda>e. e = Thread_join i 10) is_save
             (new_events g (fst (on_close ops ends_in_time g)))
        \<and> (ends_in_time \<longrightarrow> \<not> is_alive (fst (on_close ops ends_in_time g)) i))
   \<and> (\<forall>x. Save_model_weights ''model.h5'' (Inl x) \<in>
             set (new_events g (fst (on_close ops ends_in_time g))) \<longrightarrow>
          last (new_events g (fst (on_close ops ends_in_time g))) = Print (Error_saving x))"
  by (rule wp_result [where P = "\<lambda>g' r. r = Inr True
       \<and> list_ex is_save (new_events g g')
       \<and> (training_thread g = Some i \<and> is_alive g i \<longrightarrow>
            hd (new_events g g') = Print Waiting_for_training
            \<and> Thread_join i 10 \<in> set (new_events g g')
            \<and> preceded_by (\<lambda>e. e = Thread_join i 10) is_save (new_events g g')
            \<and> (ends_in_time \<longrightarrow> \<not> is_alive g' i))
       \<and> (\<forall>x. Save_model_weights ''model.h5'' (Inl x) \<in> set (new_events g g') \<longrightarrow>
              last (new_events g g') = Print (Error_saving x))"])
     (auto simp add: on_close_def join_thread_def finish_thread_def wp_background_replay
        is_alive_def split: wp_splits)

lemma toy_on_close_events:
  "new_events toy_after_episode (fst (on_close toy_ops True toy_after_episode)) =
     [Print Waiting_for_training, Replay_memory 1024 10 (Inr None), Print Training_no_loss,
      Thread_join 0 10, Save_model_weights ''model.h5'' (Inr ()), Print Model_saved]"
  "new_events toy_after_episode
     (fst (on_close (toy_ops\<lparr>save_model_weights := \<lambda>p w. (w, Inl (PyException ''disk full''))\<rparr>)
             False toy_after_episode)) =
     [Print Waiting_for_training, Thread_join 0 10,
      Save_model_weights ''model.h5'' (Inl (PyException ''disk full'')),
      Print (Error_saving (PyException ''disk full''))]"
  by (rule wp_fst,
      simp add: on_close_def join_thread_def finish_thread_def wp_background_replay
        is_alive_def toy_after_episode_fields toy_ops_def)+

theorem on_close_waits_then_saves_witness:
  "training_thread toy_after_episode = Some 0 \<and> is_alive toy_after_episode 0
   \<and> snd (on_close toy_ops True toy_after_episode) = Inr True
   \<and> new_events toy_after_episode (fst (on_close toy_ops True toy_after_episode)) =
       [Print Waiting_for_training, Replay_memory 1024 10 (Inr None), Print Training_no_loss,
        Thread_join 0 10, Save_model_weights ''model.h5'' (Inr ()), Print Model_saved]
   \<and> \<not> is_alive (fst (on_close toy_ops True toy_after_episode)) 0
   \<and> snd (on_close
            (toy_ops\<lparr>save_model_weights := \<lambda>p w. (w, Inl (PyException ''disk full''))\<rparr>)
            False toy_after_episode) = Inr True
   \<and> last (new_events toy_after_episode
        (fst (on_close
                (toy_ops\<lparr>save_model_weights := \<lambda>p w. (w, Inl (PyException ''disk full''))\<rparr>)
                False toy_after_episode))) = Print (Error_saving (PyException ''disk full''))"
  using on_close_waits_then_saves [of toy_ops True toy_after_episode 0]
        on_close_waits_then_saves
          [of "toy_ops\<lparr>save_model_weights := \<lambda>p w. (w, Inl (PyException ''disk full''))\<rparr>"
              False toy_after_episode 0]
  by (simp add: toy_on_close_events toy_after_episode_fields is_alive_def)

section \<open>Exceptions in a tick\<close>

lemma ex_eq_or [simp]: "\<exists>r. r = a \<or> P r" "\<exists>r. P r \<or> r = a"
  by auto

lemmas main_game_loop_defs = main_game_loop_def main_tick_body_def reset_after_done_def

text \<open>
  The tick of the play loop (\<^verbatim>\<open>main.py\<close>) never raises: an exception that
  \<^verbatim>\<open>except Exception\<close> catches, raised by \<^verbatim>\<open>get_input_data\<close>, \<^verbatim>\<open>calculate_command\<close>,
  \<^verbatim>\<open>move\<close>, \<^verbatim>\<open>evaluate\<close>, \<^verbatim>\<open>init_position\<close> or \<^verbatim>\<open>reset_score\<close>, is caught inside it. After
  a failed \<^verbatim>\<open>get_input_data\<close> the tick goes on to choose a command; after a failed
  \<^verbatim>\<open>calculate_command\<close> the car moves with the zero command; after a failed \<^verbatim>\<open>move\<close> the
  car is put back at the start and nothing is evaluated; after a failed \<^verbatim>\<open>evaluate\<close> the
  car is put back at the start and the score is reset.
\<close>

lemma main_game_loop_never_raises:
  "snd (main_game_loop ops dt g) = Inr ()
   \<and> (\<forall>e. Get_input_data (Inl e) \<in> set (new_events g (fst (main_game_loop ops dt g))) \<longrightarrow>
          (\<exists>r. Calculate_command False r \<in> set (new_events g (fst (main_game_loop ops dt g)))))
   \<and> (\<forall>e. Calculate_command False (Inl e) \<in>
             set (new_events g (fst (main_game_loop ops dt g))) \<longrightarrow>
          (\<exists>r. Move 0 0 dt r \<in> set (new_events g (fst (main_game_loop ops dt g)))))
   \<and> (\<forall>t a e. Move t a dt (Inl e) \<in> set (new_events g (fst (main_game_loop ops dt g))) \<longrightarrow>
          (\<exists>r. Init_position r \<in> set (new_events g (fst (main_game_loop ops dt g))))
          \<and> (\<forall>r. Evaluate dt r \<notin> set (new_events g (fst (main_game_loop ops dt g)))))
   \<and> (\<forall>e. Evaluate dt (Inl e) \<in> set (new_events g (fst (main_game_loop ops dt g))) \<longrightarrow>
          (\<exists>r. Init_position r \<in> set (new_events g (fst (main_game_loop ops dt g))))
          \<and> (\<exists>r. Reset_score r \<in> set (new_events g (fst (main_game_loop ops dt g)))))"
  by (rule wp_result [where P = "\<lambda>g' r. r = Inr ()
       \<and> (\<forall>e. Get_input_data (Inl e) \<in> set (new_events g g') \<longrightarrow>
              (\<exists>r. Calculate_command False r \<in> set (new_events g g')))
       \<and> (\<forall>e. Calculate_command False (Inl e) \<in> set (new_events g g') \<longrightarrow>
              (\<exists>r. Move 0 0 dt r \<in> set (new_events g g')))
       \<and> (\<forall>t a e. Move t a dt (Inl e) \<in> set (new_events g g') \<longrightarrow>
              (\<exists>r. Init_position r \<in> set (new_events g g'))
              \<and> (\<forall>r. Evaluate dt r \<notin> set (new_events g g')))
       \<and> (\<forall>e. Evaluate dt (Inl e) \<in> set (new_events g g') \<longrightarrow>
              (\<exists>r. Init_position r \<in> set (new_events g g'))
              \<and> (\<exists>r. Reset_score r \<in> set (new_events g g')))"])
     (simp add: main_game_loop_defs split: wp_splits)

lemma toy_main_events:
  "new_events \<lparr>world = 0 :: nat, trace = [] :: (nat, nat) event list\<rparr>
     (fst (main_game_loop
             (toy_ops\<lparr>get_input_data := \<lambda>w. (w, Inl (PyException ''sensor'')),
                      calculate_command := \<lambda>training w. (w, Inl (PyException ''model''))\<rparr>)
             (1 / 60) \<lparr>world = 0, trace = []\<rparr>)) =
     [Get_input_data (Inl (PyException ''sensor'')),
      Calculate_command False (Inl (PyException ''model'')),
      Log WARNING (Calculate_command_failed (PyException ''model'')),
      Move 0 0 (1 / 60) (Inr ()), Evaluate (1 / 60) (Inr True)]"
  "new_events \<lparr>world = 0 :: nat, trace = [] :: (nat, nat) event list\<rparr>
     (fst (main_game_loop
             (toy_ops\<lparr>move := \<lambda>t a d w. (w, Inl (PyException ''wheel''))\<rparr>)
             (1 / 60) \<lparr>world = 0, trace = []\<rparr>)) =
     [Get_input_data (Inr 0), Calculate_command False (Inr (0, 1, 0)),
      Move 0 1 (1 / 60) (Inl (PyException ''wheel'')),
      Log ERROR (Move_failed (PyException ''wheel'')), Init_position (Inr ())]"
  "new_events \<lparr>world = 0 :: nat, trace = [] :: (nat, nat) event list\<rparr>
     (fst (main_game_loop
             (toy_ops\<lparr>evaluate := \<lambda>d w. (w, Inl (PyException ''line''))\<rparr>)
             (1 / 60) \<lparr>world = 0, trace = []\<rparr>)) =
     [Get_input_data (Inr 0), Calculate_command False (Inr (0, 1, 0)),
      Move 0 1 (1 / 60) (Inr ()), Evaluate (1 / 60) (Inl (PyException ''line'')),
      Log ERROR (Evaluate_error (PyException ''line'')), Log INFO Episode_done,
      Init_position (Inr ()), Reset_score (Inr ())]"
  by (rule wp_fst, simp add: main_game_loop_defs toy_ops_def new_events_def)+

text \<open>
  Three ticks of the play loop with failing operations. The failure of \<^verbatim>\<open>get_input_data\<close>
  leaves no logged line (\<^verbatim>\<open>log.debug\<close> under level \<^verbatim>\<open>INFO\<close>); the other failures are logged.
\<close>

lemma main_game_loop_never_raises_witness:
  "snd (main_game_loop
          (toy_ops\<lparr>get_input_data := \<lambda>w. (w, Inl (PyException ''sensor'')),
                   calculate_command := \<lambda>training w. (w, Inl (PyException ''model''))\<rparr>)
          (1 / 60) \<lparr>world = 0, trace = []\<rparr>) = Inr ()
   \<and> Calculate_command False (Inl (PyException ''model'')) \<in> set
       (new_events \<lparr>world = 0 :: nat, trace = [] :: (nat, nat) event list\<rparr>
          (fst (main_game_loop
             (toy_ops\<lparr>get_input_data := \<lambda>w. (w, Inl (PyException ''sensor'')),
                      calculate_command := \<lambda>training w. (w, Inl (PyException ''model''))\<rparr>)
             (1 / 60) \<lparr>world = 0, trace = []\<rparr>)))
   \<and> Move 0 0 (1 / 60) (Inr ()) \<in> set
       (new_events \<lparr>world = 0 :: nat, trace = [] :: (nat, nat) event list\<rparr>
          (fst (main_game_loop
             (toy_ops\<lparr>get_input_data := \<lambda>w. (w, Inl (PyException ''sensor'')),
                      calculate_command := \<lambda>training w. (w, Inl (PyException ''model''))\<rparr>)
             (1 / 60) \<lparr>world = 0, trace = []\<rparr>)))
   \<and> snd (main_game_loop
          (toy_ops\<lparr>move := \<lambda>t a d w. (w, Inl (PyException ''wheel''))\<rparr>)
          (1 / 60) \<lparr>world = 0, trace = []\<rparr>) = Inr ()
   \<and> last (new_events \<lparr>world = 0 :: nat, trace = [] :: (nat, nat) event list\<rparr>
       (fst (main_game_loop
          (toy_ops\<lparr>move := \<lambda>t a d w. (w, Inl (PyException ''wheel''))\<rparr>)
          (1 / 60) \<lparr>world = 0, trace = []\<rparr>))) = Init_position (Inr ())
   \<and> snd (main_game_loop
          (toy_ops\<lparr>evaluate := \<lambda>d w. (w, Inl (PyException ''line''))\<rparr>)
          (1 / 60) \<lparr>world = 0, trace = []\<rparr>) = Inr ()
   \<and> last (new_events \<lparr>world = 0 :: nat, trace = [] :: (nat, nat) event list\<rparr>
       (fst (main_game_loop
          (toy_ops\<lparr>evaluate := \<lambda>d w. (w, Inl (PyException ''line''))\<rparr>)
          (1 / 60) \<lparr>world = 0, trace = []\<rparr>))) = Reset_score (Inr ())"
  using main_game_loop_never_raises
          [of "toy_ops\<lparr>get_input_data := \<lambda>w. (w, Inl (PyException ''sensor'')),
                       calculate_command := \<lambda>training w. (w, Inl (PyException ''model''))\<rparr>"
              "1 / 60" "\<lparr>world = 0, trace = []\<rparr>"]
        main_game_loop_never_raises
          [of "toy_ops\<lparr>move := \<lambda>t a d w. (w, Inl (PyException ''wheel''))\<rparr>"
              "1 / 60" "\<lparr>world = 0, trace = []\<rparr>"]
        main_game_loop_never_raises
          [of "toy_ops\<lparr>evaluate := \<lambda>d w. (w, Inl (PyException ''line''))\<rparr>"
              "1 / 60" "\<lparr>world = 0, trace = []\<rparr>"]
  by (simp add: toy_main_events)

text \<open>
  Claim C3. The claim is that in every tick an exception raised by \<^verbatim>\<open>get_input_data\<close>,
  \<^verbatim>\<open>calculate_command\<close>, \<^verbatim>\<open>move\<close> or \<^verbatim>\<open>evaluate\<close> is caught at the tick boundary, so that
  the tick function never hands an exception to its caller. The tick of the training loop
  (\<^verbatim>\<open>game_loop\<close> of \<^verbatim>\<open>train_deep_q.py\<close>) does not behave so: it has no handler, and at the
  first tick from the initial globals an exception raised by any one of the four
  operations comes out of \<^verbatim>\<open>game_loop\<close> itself. The tick of the play loop returns on
  the same failures.
\<close>

theorem training_game_loop_propagates:
  "snd (game_loop (toy_ops\<lparr>get_input_data := \<lambda>w. (w, Inl (PyException ''sensor''))\<rparr>)
          (1 / 30) (init_globals 0)) = Inl (PyException ''sensor'')
   \<and> snd (game_loop
            (toy_ops\<lparr>calculate_command := \<lambda>training w. (w, Inl (PyException ''model''))\<rparr>)
            (1 / 30) (init_globals 0)) = Inl (PyException ''model'')
   \<and> snd (game_loop (toy_ops\<lparr>move := \<lambda>t a d w. (w, Inl (PyException ''wheel''))\<rparr>)
            (1 / 30) (init_globals 0)) = Inl (PyException ''wheel'')
   \<and> snd (game_loop (toy_ops\<lparr>evaluate := \<lambda>d w. (w, Inl (PyException ''line''))\<rparr>)
            (1 / 30) (init_globals 0)) = Inl (PyException ''line'')"
  by (intro conjI; rule wp_result [where P = "\<lambda>g' r. r = Inl _"])
     (simp_all add: game_loop_defs toy_ops_def init_globals_def)

end
